theory Spec2Isabelle
  imports Complex_Main "HOL-Library.Sublist"
begin

section \<open>Data model\<close>

text \<open>
  The program is \<^verbatim>\<open>src/data/make_dataset.py\<close>. Its tables are pandas data frames read
  with \<^verbatim>\<open>pd.read_csv\<close>, which types every column from its content: a cell of a data
  frame is the missing value NaN, a text, or a number. Integers and floats are both
  numbers here: Python compares and hashes them by their numeric value.
\<close>

datatype cell = NaN | Text string | Number real

text \<open>
  The columns of a citation table are the three that \<^verbatim>\<open>create_sample\<close> projects
  and renames (lines 93 and 98-110). A table is the list of its rows in index order.
  The record's own constructor is called \<open>make\<close>, so the column \<^verbatim>\<open>make\<close> is the
  field \<open>make_col\<close>.
\<close>

record citation =
  make_col :: cell
  violation_code :: cell
  violation_description :: cell

type_synonym table = "citation list"

text \<open>A data line of the file that \<^verbatim>\<open>clean\<close> reads: the text of its three fields.\<close>

record raw_row =
  raw_make :: string
  raw_code :: string
  raw_description :: string

text \<open>The written output of \<^verbatim>\<open>clean\<close> (lines 404-406): the code column is dropped and
  a dense zero-based index column is put in front.\<close>

record out_row =
  out_index :: nat
  out_make :: cell
  out_description :: cell

text \<open>The only exception the code raises by itself is the failed \<^verbatim>\<open>assert\<close> of line 77
  (the specification calls it InvalidArgument).\<close>

datatype error = AssertionError

section \<open>Strings\<close>

text \<open>
  Python's \<^verbatim>\<open>str.replace(old, new)\<close>: the string is scanned from the left, every
  occurrence of \<open>old\<close> that does not overlap an earlier replaced one is replaced.
  With an empty \<open>old\<close>, \<open>new\<close> is put before every character and at the end.
\<close>

function replace_scan :: "string \<Rightarrow> string \<Rightarrow> string \<Rightarrow> string" where
  "replace_scan old new [] = []"
| "replace_scan old new (c # cs) =
     (if old \<noteq> [] \<and> prefix old (c # cs)
      then new @ replace_scan old new (drop (length old) (c # cs))
      else c # replace_scan old new cs)"
  by pat_completeness auto
termination
  by (relation "measure (\<lambda>(old, new, s). length s)") (auto simp: neq_Nil_conv)

definition str_replace :: "string \<Rightarrow> string \<Rightarrow> string \<Rightarrow> string" where
  "str_replace old new s =
     (if old = [] then new @ concat (map (\<lambda>c. c # new) s) else replace_scan old new s)"

text \<open>Python's \<^verbatim>\<open>x.split(",")\<close> (line 189): the fields between the commas, empty ones
  included; the empty string gives one empty field.\<close>

fun split_comma :: "string \<Rightarrow> string list" where
  "split_comma [] = [[]]"
| "split_comma (c # cs) =
     (if c = CHR '','' then [] # split_comma cs
      else (case split_comma cs of
              [] \<Rightarrow> [[c]]
            | w # ws \<Rightarrow> (c # w) # ws))"

section \<open>Reading a table\<close>

text \<open>
  \<^verbatim>\<open>pd.read_csv(target_file, low_memory=False)\<close> (line 131) is given no column types.
  A field whose text is one of pandas' default markers of a missing value, the empty
  field among them, is read as NaN. A column in which every other field is the text
  of a number becomes a numeric column and holds these numbers; any other column
  holds the texts of its fields. Which texts the reader takes for numbers is the
  parameter \<open>num\<close>, the number a text stands for if it stands for one.
\<close>

definition na_values :: "string list" where
  "na_values =
     ['''', ''#N/A'', ''#N/A N/A'', ''#NA'', ''-1.#IND'', ''-1.#QNAN'', ''-NaN'', ''-nan'',
      ''1.#IND'', ''1.#QNAN'', ''<NA>'', ''N/A'', ''NA'', ''NULL'', ''NaN'', ''None'',
      ''n/a'', ''nan'', ''null'']"

definition is_na :: "string \<Rightarrow> bool" where
  "is_na f \<longleftrightarrow> f \<in> set na_values"

definition numeric_col :: "(string \<Rightarrow> real option) \<Rightarrow> string list \<Rightarrow> bool" where
  "numeric_col num texts \<longleftrightarrow> list_all (\<lambda>f. is_na f \<or> num f \<noteq> None) texts"

definition read_cell :: "(string \<Rightarrow> real option) \<Rightarrow> bool \<Rightarrow> string \<Rightarrow> cell" where
  "read_cell num numeric f =
     (if is_na f then NaN
      else if numeric then (case num f of None \<Rightarrow> NaN | Some x \<Rightarrow> Number x)
      else Text f)"

definition read_csv :: "(string \<Rightarrow> real option) \<Rightarrow> raw_row list \<Rightarrow> table" where
  "read_csv num raw =
     (let nm = numeric_col num (map raw_make raw);
          nc = numeric_col num (map raw_code raw);
          nd = numeric_col num (map raw_description raw)
      in map (\<lambda>r. \<lparr>make_col = read_cell num nm (raw_make r),
                    violation_code = read_cell num nc (raw_code r),
                    violation_description = read_cell num nd (raw_description r)\<rparr>) raw)"

text \<open>
  A reader of numbers for concrete inputs: the unsigned decimal numerals, digits with
  at most one point. It takes \<^verbatim>\<open>000\<close> for 0 and \<^verbatim>\<open>8056\<close> for 8056, and takes
  \<^verbatim>\<open>80.69BS\<close> and \<^verbatim>\<open>X\<close> for no number.
\<close>

definition is_digit :: "char \<Rightarrow> bool" where
  "is_digit c \<longleftrightarrow> c \<in> set ''0123456789''"

fun nat_of_digits :: "nat \<Rightarrow> string \<Rightarrow> nat" where
  "nat_of_digits acc [] = acc"
| "nat_of_digits acc (c # cs) = nat_of_digits (10 * acc + (of_char c - 48)) cs"

definition unsigned_decimal :: "string \<Rightarrow> real option" where
  "unsigned_decimal s =
     (let ip = takeWhile is_digit s; rest = dropWhile is_digit s
      in case rest of
           [] \<Rightarrow> if ip = [] then None else Some (real (nat_of_digits 0 ip))
         | c # fp \<Rightarrow>
             if c = CHR ''.'' \<and> list_all is_digit fp \<and> (ip \<noteq> [] \<or> fp \<noteq> [])
             then Some (real (nat_of_digits 0 ip)
                        + real (nat_of_digits 0 fp) / 10 ^ length fp)
             else None)"

section \<open>The row sampler\<close>

text \<open>
  \<^verbatim>\<open>skiprows=lambda i: i > 0 and random.random() > sample_frac\<close> (line 94). The
  conjunction is short-circuit: line 0, the header, is kept without a draw, and every
  later line consumes exactly one draw. The random generator is the stream \<open>rnd\<close> of
  its successive results and \<open>k\<close> counts the draws made so far; \<open>i\<close> is the line number
  in the file. Fractions and draws are modelled as reals.
\<close>

fun read_csv_skiprows :: "real \<Rightarrow> (nat \<Rightarrow> real) \<Rightarrow> nat \<Rightarrow> nat \<Rightarrow> 'a list \<Rightarrow> 'a list" where
  "read_csv_skiprows sample_frac rnd i k [] = []"
| "read_csv_skiprows sample_frac rnd i k (l # ls) =
     (if i > 0
      then (if rnd k > sample_frac
            then read_csv_skiprows sample_frac rnd (Suc i) (Suc k) ls
            else l # read_csv_skiprows sample_frac rnd (Suc i) (Suc k) ls)
      else l # read_csv_skiprows sample_frac rnd (Suc i) k ls)"

text \<open>The name of the sample file (lines 81-85); \<open>frac_repr\<close> is the text
  \<^verbatim>\<open>str(sample_frac)\<close>.\<close>

definition sample_name :: "string \<Rightarrow> string \<Rightarrow> string" where
  "sample_name stem frac_repr =
     stem @ ''_'' @ str_replace ''.'' '''' frac_repr @ ''samp.csv''"

text \<open>
  \<^verbatim>\<open>create_sample\<close> (lines 66-116). \<open>rows\<close> are the data lines of the source file,
  already projected on the three columns; the header is line 0, so the data lines are
  numbered from 1. The result is the name of the file written and the lines kept.
\<close>

definition create_sample ::
  "string \<Rightarrow> string \<Rightarrow> 'a list \<Rightarrow> real \<Rightarrow> (nat \<Rightarrow> real) \<Rightarrow> error + (string \<times> 'a list)" where
  "create_sample stem frac_repr rows sample_frac rnd =
     (if sample_frac \<le> 1 \<and> sample_frac > 0
      then Inr (sample_name stem frac_repr, read_csv_skiprows sample_frac rnd 1 0 rows)
      else Inl AssertionError)"

section \<open>Make aliases\<close>

text \<open>
  \<^verbatim>\<open>df.replace(to_replace, value)\<close> with a list of texts and a text (line 193): in
  every column, a cell whose value equals an element of the list becomes the value.
  The match is on the whole cell; a missing cell and a number equal no text.
\<close>

definition replace_cell :: "string list \<Rightarrow> string \<Rightarrow> cell \<Rightarrow> cell" where
  "replace_cell to_replace val c =
     (case c of
        Text v \<Rightarrow> if v \<in> set to_replace then Text val else Text v
      | _ \<Rightarrow> c)"

definition df_replace :: "string list \<Rightarrow> string \<Rightarrow> table \<Rightarrow> table" where
  "df_replace to_replace val df =
     map (\<lambda>r. \<lparr>make_col = replace_cell to_replace val (make_col r),
               violation_code = replace_cell to_replace val (violation_code r),
               violation_description = replace_cell to_replace val (violation_description r)\<rparr>)
         df"

text \<open>The reference table \<^verbatim>\<open>references/make.csv\<close> (lines 188-189) is a parameter: its
  rows are pairs of a canonical make and the comma-joined text of its aliases.\<close>

type_synonym make_table = "(string \<times> string) list"

definition make_pass :: "make_table \<Rightarrow> table \<Rightarrow> table" where
  "make_pass make_df df =
     fold (\<lambda>(mk, alias) d. df_replace (split_comma alias) mk d) make_df df"

section \<open>The reconciler\<close>

text \<open>A column holds texts (pandas' object type) when one of its cells is a text;
  a column of numbers and missing cells only is numeric.\<close>

definition object_col :: "cell list \<Rightarrow> bool" where
  "object_col col \<longleftrightarrow> list_ex (\<lambda>c. case c of Text s \<Rightarrow> True | _ \<Rightarrow> False) col"

text \<open>
  Lines 222-224. Both columns are turned into Python sets and intersected. Texts and
  numbers are shared when they are equal. The missing value of a text column is one
  object, the same in every text column, so it is shared when both columns are text
  columns with a missing cell; a numeric column yields a new NaN object for each of
  its missing cells, equal to nothing, so its missing value is never shared.
  \<^verbatim>\<open>isin\<close> (line 232) matches a missing cell when NaN is in the set.
\<close>

definition same_codes :: "table \<Rightarrow> cell set" where
  "same_codes df =
     (let codes = map violation_code df; descs = map violation_description df;
          shared = (set codes \<inter> set descs) - {NaN}
      in if object_col codes \<and> object_col descs \<and> NaN \<in> set codes \<and> NaN \<in> set descs
         then insert NaN shared else shared)"

text \<open>Lines 227-230: the code receives the description, the description becomes NaN.\<close>

definition code_swap :: "citation \<Rightarrow> citation" where
  "code_swap r = r\<lparr>violation_code := violation_description r, violation_description := NaN\<rparr>"

text \<open>Lines 232-234. The comparison with \<^verbatim>\<open>"000"\<close> holds of the text \<^verbatim>\<open>000\<close> only,
  never of a number or of a missing cell.\<close>

definition code_swap_filter :: "cell set \<Rightarrow> citation \<Rightarrow> bool" where
  "code_swap_filter sc r \<longleftrightarrow>
     violation_description r \<in> sc \<or> violation_code r = Text ''000''"

text \<open>Lines 236-238: the rows selected by the filter are replaced by their images, the
  others stay; \<open>same_codes\<close> is computed once, on the table before any swap.\<close>

definition swap_pass :: "table \<Rightarrow> table" where
  "swap_pass df =
     (let sc = same_codes df
      in map (\<lambda>r. if code_swap_filter sc r then code_swap r else r) df)"

text \<open>Line 241.\<close>

definition drop_missing :: "table \<Rightarrow> table" where
  "drop_missing df =
     filter (\<lambda>r. \<not> (violation_code r = NaN \<and> violation_description r = NaN)) df"

definition reconcile :: "table \<Rightarrow> table" where
  "reconcile df = drop_missing (swap_pass df)"

section \<open>Violation aliases\<close>

text \<open>The dictionary literal of lines 244-398, in source order; its keys are distinct.\<close>

definition viol_aliases :: "(string \<times> string) list" where
  "viol_aliases = [
    (''22500B'', ''PARKED IN CROSSWALK''),
    (''22507.8B'', ''DISABLED PARKING/OBS''),
    (''80.69A+'', ''STOP/STAND PROHIBIT''),
    (''8056E2'', ''YELLOW ZONE''),
    (''22507.8B-'', ''DISABLED PARKING/OBSTRUCT ACCESS''),
    (''80.61'', ''STANDNG IN ALLEY''),
    (''80.66.1D'', ''RESTRICTED TAXI ZONE''),
    (''80.54'', ''OVERNIGHT PARKING''),
    (''8061#'', ''STANDING IN ALLEY''),
    (''80.69.1C'', ''PK TRAILER''),
    (''225001'', ''PARK FIRE LANE''),
    (''80.69D'', (''VEH/LOAD OVR 6'' @ [CHR 0x27] @ '' HIGH'')),
    (''22500.1+'', ''PARKED IN FIRE LANE''),
    (''22507.8A-'', ''DISABLED PARKING/NO DP ID''),
    (''557'', ''8755*''),
    (''80.69BS'', ''NO PARK/STREET CLEAN''),
    (''22502E'', ''18 IN. CURB/1 WAY''),
    (''5200A'', ''DSPLYPLATE A''),
    (''22507.8A'', ''DISABLED PARKING/NO''),
    (''80692*'', ''COMVEH RES/OV TM B-2''),
    (''553'', ''80581''),
    (''22511.57B'', ''DP- RO NOT PRESENT''),
    (''80.69.4'', ''PK OVERSIZ''),
    (''80.75.1'', ''AUDIBLE ALARM''),
    (''5204A-'', ''DISPLAY OF TABS''),
    (''80.69C'', ''PARKED OVER TIME LIMIT''),
    (''80713'', ''PARKING/FRONT YARD 1''),
    (''22500K'', ''PARKED ON BRIDGE''),
    (''569'', ''2251157A''),
    (''88.03A'', ''OUTSIDE LINES/METER''),
    (''22522-'', ''3 FT. SIDEWALK RAMP''),
    (''22507.8C1'', ''DISABLED PARKING/BOUNDARIES''),
    (''8709D'', ''LOADING ZONES''),
    (''88.66'', ''ELECTRIC CHARGING STATION SPACES''),
    (''8070'', ''PARK IN GRID LOCK ZN''),
    (''88.63B+'', ''OFF STR/OVERTIME/MTR''),
    (''88.53'', ''OFF STR MTR/OUT LINE''),
    (''80692'', ''COMVEH RES/OV TM LMT''),
    (''17104H'', ''LOAD/UNLOAD ONLY''),
    (''80.58.1'', ''CARSHARE PARKING''),
    (''80.69AP+'', ''NO STOP/STANDING''),
    (''8056E1'', ''WHITE ZONE''),
    (''6344K2'', ''NO PARKING BETWEEN POSTED HOURS''),
    (''80.58L'', ''PREFERENTIAL PARKING''),
    (''80.53'', ''PARKED IN PARKWAY''),
    (''8069BS'', ''NO PARK/STREET CLEAN''),
    (''556'', ''8755''),
    (''5201'', ''POSITION OF PLATES''),
    (''8936'', ''RED CURB''),
    (''80.56E4+'', ''RED ZONE''),
    (''8061'', ''STNDNG IN ALLEY''),
    (''8056'', ''YELLOW ZONE''),
    (''80.72'', ''RED FLAG DAY''),
    (''22507A'', ''OVERSIZED VEHICLE PARKING TOPHAM ST''),
    (''22500L-'', ''DP-BLKNG ACCESS RAMP''),
    (''80661D'', ''RESTRICTED ZONE''),
    (''80.69AA+'', ''NO STOP/STAND''),
    (''22500H'', ''DOUBLE PARKING''),
    (''572521D'', ''MT FIRE RD NO PERMIT''),
    (''87.55'', ''FOR SALE SIGN''),
    (''8813B'', ''METER EXPIRED''),
    (''031'', ''22523A''),
    (''5202'', ''PERIOD OF DISPLAY''),
    (''8069B'', ''NO PARKING''),
    (''22511.1B'', ''PRK IN ELEC VEH SPACE''),
    (''805.6'', ''WHITE ZONE''),
    (''8056E4'', ''RED ZONE''),
    (''22502A'', ''18 IN. CURB/2 WAY''),
    (''89391C'', ''EXCEED TIME LMT''),
    (''85.01'', ''REPAIRING VEH/STREET''),
    (''8069C'', ''PKD OVER TIME LIMIT''),
    (''80732'', ''EXCEED 72 HOURS''),
    (''8606'', ''PK OTSD PSTD AR''),
    (''8603'', ''PK IN PROH AREA''),
    (''89391A'', ''STOP/STAND PROHB''),
    (''8053'', ''PKD IN/ON PARKWAY''),
    (''8939'', ''WHITE CURB''),
    (''86.03'', ''CITY PARK/PROHIB''),
    (''80714#'', ''PRIVATE PROPERTY''),
    (''80.69.2'', ''COMM VEH OVER TIME LIMIT''),
    (''572521E'', ''OBST FIRE RD''),
    (''045'', ''4000''),
    (''80.70'', ''NO STOPPING/ANTI-GRIDLOCK ZONE''),
    (''8940'', ''PARKING AREA''),
    (''21113'', ''PRKG PUBL GRNDS''),
    (''80714'', ''PRIVATE PROPERTY''),
    (''80.49+'', ''18 IN/CURB/COMM VEH''),
    (''5204A'', ''EXPIRED TAGS''),
    (''8051A'', ''LEFT SIDE OF ROADWAY''),
    (''80692**'', ''COMVEH RES/OV TM C-3''),
    (''22507.8C2'', ''DISABLED PARKING/CROSS HATCH''),
    (''80.7'', ''NO STOPPING/ANTI-GRIDLOCK ZONE''),
    (''225078A'', ''HANDICAP/NO DP ID''),
    (''88.64A'', ''TIME LIMIT/CITY LOT''),
    (''8501'', ''REPAIRING VEH/STREET''),
    (''80.73.2'', ''EXCEED 72HRS-ST''),
    (''22511.56B'', ''DP-REFUSE ID''),
    (''8863B'', ''OFF STR/OVERTIME/MTR''),
    (''80.56E2'', ''YELLOW ZONE''),
    (''8056E3'', ''GREEN ZONE''),
    (''80.71.3'', ''PARKING/FRONT YARD''),
    (''030'', ''22522''),
    (''8069A'', ''NO STOPPING/STANDING''),
    (''8058L'', ''PREF PARKING''),
    (''88.13B+'', ''METER EXP.''),
    (''22500A'', ''WITHIN INTERSECTION''),
    (''22507.8C'', ''DISABLED PARKING/CRO''),
    (''80.54H1'', ''OVNIGHT PRK W/OUT PE''),
    (''89355C'', ''ILGL EXT OF TM''),
    (''2251156B'', ''MISUSE/DP PRIVILEGE''),
    (''21211B'', ''BLK BIKE PATH OR LANE''),
    (''4000A1'', ''NO EVIDENCE OF REG''),
    (''22511.57'', ''DP- RO NOT PRESENT''),
    (''22500C'', ''SAFETY ZONE/CURB''),
    (''225078C2'', ''HANDICAP/CROSS HATCH''),
    (''6344K7'', ''PARKING OUTSIDE PARKING STALLS''),
    (''86.06'', ''CITY PARK/PROHIB''),
    (''22500E'', ''BLOCKING DRIVEWAY''),
    (''22500I-'', ''PARKED IN BUS ZONE''),
    (''80.69.1A'', ''COMM TRAILER/22 FT.''),
    (''225078C1'', ''HANDICAP/ON LINE''),
    (''80691C'', ''PARKING UNHITCHED TR''),
    (''22515'', ''UNATT/MOTOR ON''),
    (''5200'', ''DISPLAY OF PLATES''),
    (''17104C'', ''R/PRIV PARKING AREA''),
    (''22526'', ''BLOCKING INTERSECTION''),
    (''80.56E1'', ''WHITE ZONE''),
    (''80691A'', ''COMM TRAILER/22 FT.''),
    (''571'', ''2251157C''),
    (''8709B'', ''PARK-PSTD AREAS''),
    (''22514'', ''FIRE HYDRANT''),
    (''029'', ''22521''),
    (''80.69B'', ''NO PARKING''),
    (''8803A'', ''PK OUTSD SPACE''),
    (''8049'', ''WRG SD/NOT PRL''),
    (''22500F'', ''PARKED ON SIDEWALK''),
    (''8072'', ''PARK RED FLAG DAY''),
    (''80.74'', ''CLEANING VEH/STREET''),
    (''8074'', ''CLEANING VEH/STREET''),
    (''8069AP'', ''NO STOP/STAND PM''),
    (''8073C'', ''CATERING/CENTER CITY''),
    (''8709K'', ''PK OVR PNTD LNS''),
    (''80.56E3'', ''GREEN ZONE''),
    (''8943'', ''PARK IN XWALK''),
    (''22511.57C'', ''DP-ALTERED''),
    (''017'', ''22502''),
    (''21113A+'', ''PUBLIC GROUNDS''),
    (''80731'', ''STORING VEH/ON STR''),
    (''6344C'', ''COMMERCIAL - UNDESIG''),
    (''225078B'', ''HANDICPD/BLOCKING''),
    (''80.71.4'', ''PRIVATE PROPERTY''),
    (''8069AA'', ''NO STOP/STAND AM''),
    (''6344K8'', ''SIGN POSTED - NO PARKING'')
  ]"

text \<open>Lines 400-401: one assignment per key, to the rows whose code equals the key; a
  key is a text, so only a code that is a text can equal it.\<close>

definition viol_step :: "string \<Rightarrow> string \<Rightarrow> table \<Rightarrow> table" where
  "viol_step key val df =
     map (\<lambda>r. if violation_code r = Text key
              then r\<lparr>violation_description := Text val\<rparr> else r) df"

definition viol_pass_with :: "(string \<times> string) list \<Rightarrow> table \<Rightarrow> table" where
  "viol_pass_with al df = fold (\<lambda>(key, val) d. viol_step key val d) al df"

definition viol_pass :: "table \<Rightarrow> table" where
  "viol_pass df = viol_pass_with viol_aliases df"

section \<open>The cleaning pipeline\<close>

text \<open>Lines 404-406: the code column is dropped and the rows are numbered from 0.\<close>

definition drop_code_reindex :: "table \<Rightarrow> out_row list" where
  "drop_code_reindex df =
     map (\<lambda>(i, r). \<lparr>out_index = i, out_make = make_col r,
                    out_description = violation_description r\<rparr>)
         (enumerate 0 df)"

text \<open>Line 412: the name of the output file, from the stem of the input file.\<close>

definition clean_name :: "string \<Rightarrow> string" where
  "clean_name stem = str_replace ''_raw'' ''_processed'' stem @ ''.csv''"

text \<open>The table before the code column is dropped (lines 131-401): the file is read,
  then the make aliases, the reconciler and the violation aliases are applied.\<close>

definition clean_passes :: "(string \<Rightarrow> real option) \<Rightarrow> make_table \<Rightarrow> raw_row list \<Rightarrow> table" where
  "clean_passes num make_df raw = viol_pass (reconcile (make_pass make_df (read_csv num raw)))"

text \<open>\<^verbatim>\<open>clean\<close> (lines 119-416): the name of the file written and its rows.\<close>

definition clean ::
  "(string \<Rightarrow> real option) \<Rightarrow> make_table \<Rightarrow> string \<Rightarrow> raw_row list \<Rightarrow> string \<times> out_row list" where
  "clean num make_df stem raw =
     (clean_name stem, drop_code_reindex (clean_passes num make_df raw))"

section \<open>Row-wise view of the substitution passes\<close>

text \<open>What one \<^verbatim>\<open>df.replace\<close> call and one assignment of the violation loop do to a
  single row; the lemmas below show that the passes above are these, row by row.\<close>

definition replace_row :: "string list \<Rightarrow> string \<Rightarrow> citation \<Rightarrow> citation" where
  "replace_row to_replace val r =
     \<lparr>make_col = replace_cell to_replace val (make_col r),
      violation_code = replace_cell to_replace val (violation_code r),
      violation_description = replace_cell to_replace val (violation_description r)\<rparr>"

definition viol_row :: "string \<Rightarrow> string \<Rightarrow> citation \<Rightarrow> citation" where
  "viol_row key val r =
     (if violation_code r = Text key then r\<lparr>violation_description := Text val\<rparr> else r)"

section \<open>Lemmas on string replacement\<close>

lemma replace_scan_absent: "\<not> sublist old s \<Longrightarrow> replace_scan old new s = s"
proof (induction s)
  case Nil
  show ?case by simp
next
  case (Cons c cs)
  from Cons.prems have np: "\<not> prefix old (c # cs)"
    using prefix_imp_sublist by blast
  from Cons.prems have "\<not> sublist old cs"
    by (meson sublist_Cons_right)
  with Cons.IH np show ?case by simp
qed

lemma raw_no_border:
  "prefix ''_raw'' (c # cs @ ''_raw'' @ q) \<Longrightarrow> prefix ''_raw'' (c # cs)"
proof (cases cs)
  case Nil
  assume "prefix ''_raw'' (c # cs @ ''_raw'' @ q)"
  with Nil show ?thesis by simp
next
  case (Cons d ds)
  assume a: "prefix ''_raw'' (c # cs @ ''_raw'' @ q)"
  show ?thesis
  proof (cases ds)
    case Nil
    with a Cons show ?thesis by simp
  next
    case (Cons e es)
    note c2 = this
    show ?thesis
    proof (cases es)
      case Nil
      with a c2 \<open>cs = d # ds\<close> show ?thesis by simp
    next
      case (Cons f fs)
      with a c2 \<open>cs = d # ds\<close> show ?thesis by simp
    qed
  qed
qed

lemma replace_scan_miss:
  "\<not> prefix old (c # cs) \<Longrightarrow> replace_scan old new (c # cs) = c # replace_scan old new cs"
  by simp

lemma replace_scan_raw_head:
  "replace_scan ''_raw'' new (''_raw'' @ x) = new @ replace_scan ''_raw'' new x"
  by simp

lemma replace_scan_raw_split:
  "replace_scan ''_raw'' new (p @ ''_raw'' @ q)
   = replace_scan ''_raw'' new p @ new @ replace_scan ''_raw'' new q"
proof (induction "''_raw''" new p rule: replace_scan.induct)
  case (1 new)
  show ?case by simp
next
  case (2 new c cs)
  show ?case
  proof (cases "prefix ''_raw'' (c # cs)")
    case True
    then obtain rest where rest: "c # cs = ''_raw'' @ rest"
      by (auto simp: prefix_def)
    then have dr: "drop (length ''_raw'') (c # cs) = rest"
      by simp
    from True have "''_raw'' \<noteq> [] \<and> prefix ''_raw'' (c # cs)"
      by simp
    from 2(1) [OF this] dr
    have ih: "replace_scan ''_raw'' new (rest @ ''_raw'' @ q)
        = replace_scan ''_raw'' new rest @ new @ replace_scan ''_raw'' new q"
      by simp
    have "replace_scan ''_raw'' new ((c # cs) @ ''_raw'' @ q)
        = replace_scan ''_raw'' new (''_raw'' @ (rest @ ''_raw'' @ q))"
      using rest by simp
    also have "\<dots> = new @ replace_scan ''_raw'' new (rest @ ''_raw'' @ q)"
      by (rule replace_scan_raw_head)
    also have "\<dots> = (new @ replace_scan ''_raw'' new rest) @ new @ replace_scan ''_raw'' new q"
      using ih by simp
    also have "new @ replace_scan ''_raw'' new rest = replace_scan ''_raw'' new (c # cs)"
      unfolding rest by (rule replace_scan_raw_head [symmetric])
    finally show ?thesis .
  next
    case False
    then have npre: "\<not> prefix ''_raw'' (c # cs @ ''_raw'' @ q)"
      using raw_no_border by blast
    from False have "\<not> (''_raw'' \<noteq> [] \<and> prefix ''_raw'' (c # cs))"
      by simp
    from 2(2) [OF this]
    have ih: "replace_scan ''_raw'' new (cs @ ''_raw'' @ q)
        = replace_scan ''_raw'' new cs @ new @ replace_scan ''_raw'' new q" .
    have "replace_scan ''_raw'' new ((c # cs) @ ''_raw'' @ q)
        = replace_scan ''_raw'' new (c # (cs @ ''_raw'' @ q))"
      by simp
    also have "\<dots> = c # replace_scan ''_raw'' new (cs @ ''_raw'' @ q)"
      using npre by (intro replace_scan_miss) simp
    also have "\<dots> = (c # replace_scan ''_raw'' new cs) @ new @ replace_scan ''_raw'' new q"
      using ih by simp
    also have "c # replace_scan ''_raw'' new cs = replace_scan ''_raw'' new (c # cs)"
      using False by (rule replace_scan_miss [symmetric])
    finally show ?thesis .
  qed
qed

text \<open>
  Claim C4, as stated: a stem without the suffix \<^verbatim>\<open>_raw\<close> gets \<^verbatim>\<open>_processed\<close>
  appended. The stem \<^verbatim>\<open>sample\<close> does not end in \<^verbatim>\<open>_raw\<close> and the output is named
  \<^verbatim>\<open>sample.csv\<close>.
\<close>

theorem C4_counterexample: "\<not> suffix ''_raw'' ''sample'' \<and> clean_name ''sample'' = ''sample.csv''
   \<and> clean_name ''sample'' \<noteq> ''sample'' @ ''_processed'' @ ''.csv''"
  by (simp add: clean_name_def str_replace_def suffix_def)

text \<open>
  Claim C4, amended: the output is named after the stem with every occurrence of
  \<^verbatim>\<open>_raw\<close> replaced by \<^verbatim>\<open>_processed\<close>, a suffix \<^verbatim>\<open>_raw\<close> among them, followed
  by \<^verbatim>\<open>.csv\<close>; a stem in which \<^verbatim>\<open>_raw\<close> does not occur is kept as it is, nothing
  is appended to it.
\<close>

theorem C4_output_name: "clean_name (p @ ''_raw'') = str_replace ''_raw'' ''_processed'' p @ ''_processed.csv''
  \<and> clean_name (p @ ''_raw'' @ q) = str_replace ''_raw'' ''_processed'' p @ ''_processed'' @ str_replace ''_raw'' ''_processed'' q @ ''.csv''
  \<and> (\<not> sublist ''_raw'' s \<longrightarrow> clean_name s = s @ ''.csv'')"
proof -
  have a: "clean_name (p @ ''_raw'' @ q) = str_replace ''_raw'' ''_processed'' p @ ''_processed'' @ str_replace ''_raw'' ''_processed'' q @ ''.csv''" for q
    using replace_scan_raw_split [of "''_processed''" p q]
    by (simp add: clean_name_def str_replace_def)
  have b: "clean_name (p @ ''_raw'') = str_replace ''_raw'' ''_processed'' p @ ''_processed.csv''"
    using a [of "[]"] by (simp add: str_replace_def)
  have c: "\<not> sublist ''_raw'' s \<longrightarrow> clean_name s = s @ ''.csv''"
    by (simp add: clean_name_def str_replace_def replace_scan_absent)
  from a b c show ?thesis by blast
qed

theorem C4_output_name_witness: "\<not> sublist ''_raw'' ''2020_01samp'' \<and> clean_name ''2020_01samp'' = ''2020_01samp.csv''
  \<and> clean_name ''2020_raw'' = ''2020_processed.csv''"
  using C4_output_name [of "''2020''" "[]" "''2020_01samp''"]
  by (simp add: str_replace_def sublist_code)

section \<open>The row sampler: claims\<close>

lemma read_csv_skiprows_all:
  "\<forall>k. rnd k \<le> sample_frac \<Longrightarrow> read_csv_skiprows sample_frac rnd i k rows = rows"
  by (induction rows arbitrary: i k) (simp_all add: not_less [symmetric])

text \<open>
  Claim C6: \<^verbatim>\<open>create_sample\<close> fails with the assertion error exactly when the sample
  fraction is outside the interval from 0 (excluded) to 1 (included); for a fraction
  inside it returns the sample.
\<close>

theorem C6_sample_frac_range:
  "(create_sample stem frac_repr rows sample_frac rnd = Inl AssertionError)
     = (\<not> (0 < sample_frac \<and> sample_frac \<le> 1))
   \<and> (0 < sample_frac \<and> sample_frac \<le> 1 \<longrightarrow>
        create_sample stem frac_repr rows sample_frac rnd
          = Inr (sample_name stem frac_repr, read_csv_skiprows sample_frac rnd 1 0 rows))"
  by (auto simp: create_sample_def)

theorem C6_sample_frac_range_witness:
  "(0::real) < 1 / 10 \<and> (1::real) / 10 \<le> 1
   \<and> create_sample ''2020_raw'' ''0.1'' ([] :: raw_row list) (1 / 10) (\<lambda>k. 1 / 2) \<noteq> Inl AssertionError
   \<and> create_sample ''2020_raw'' ''0.1'' ([] :: raw_row list) (1 / 10) (\<lambda>k. 1 / 2) = Inr (''2020_raw_01samp.csv'', [])
   \<and> create_sample ''2020_raw'' ''2'' ([] :: raw_row list) 2 (\<lambda>k. 1 / 2) = Inl AssertionError
   \<and> create_sample ''2020_raw'' ''0'' ([] :: raw_row list) 0 (\<lambda>k. 1 / 2) = Inl AssertionError"
  using C6_sample_frac_range [of "''2020_raw''" "''0.1''" "[] :: raw_row list" "1 / 10" "\<lambda>k. 1 / 2"]
        C6_sample_frac_range [of "''2020_raw''" "''2''" "[] :: raw_row list" 2 "\<lambda>k. 1 / 2"]
        C6_sample_frac_range [of "''2020_raw''" "''0''" "[] :: raw_row list" 0 "\<lambda>k. 1 / 2"]
  by (simp add: sample_name_def str_replace_def)

text \<open>
  Claim C10: with sample fraction 1 and every draw of the random generator in the
  interval from 0 (included) to 1 (excluded), \<^verbatim>\<open>create_sample\<close> keeps every data row
  of the source file.
\<close>

theorem C10_fraction_one_keeps_all:
  assumes "\<forall>k. 0 \<le> rnd k \<and> rnd k < 1"
  shows "create_sample stem frac_repr rows 1 rnd = Inr (sample_name stem frac_repr, rows)"
proof -
  from assms have "\<forall>k. rnd k \<le> 1"
    by (simp add: less_imp_le)
  then have "read_csv_skiprows 1 rnd 1 0 rows = rows"
    by (rule read_csv_skiprows_all)
  then show ?thesis by (simp add: create_sample_def)
qed

theorem C10_fraction_one_keeps_all_witness:
  "(\<forall>k::nat. (0::real) \<le> (\<lambda>k. 9 / 10) k \<and> (\<lambda>k. 9 / 10) k < (1::real))
   \<and> create_sample ''2020_raw'' ''1''
        [\<lparr>raw_make = ''HOND'', raw_code = ''8056'', raw_description = ''YELLOW ZONE''\<rparr>,
         \<lparr>raw_make = ''FORD'', raw_code = '''', raw_description = ''''\<rparr>] 1 (\<lambda>k. 9 / 10)
     = Inr (''2020_raw_1samp.csv'',
        [\<lparr>raw_make = ''HOND'', raw_code = ''8056'', raw_description = ''YELLOW ZONE''\<rparr>,
         \<lparr>raw_make = ''FORD'', raw_code = '''', raw_description = ''''\<rparr>])"
proof -
  have h: "\<forall>k::nat. (0::real) \<le> (\<lambda>k. 9 / 10) k \<and> (\<lambda>k. 9 / 10) k < (1::real)"
    by simp
  from h C10_fraction_one_keeps_all [OF h, of "''2020_raw''" "''1''"
        "[\<lparr>raw_make = ''HOND'', raw_code = ''8056'', raw_description = ''YELLOW ZONE''\<rparr>,
         \<lparr>raw_make = ''FORD'', raw_code = '''', raw_description = ''''\<rparr>]"]
  show ?thesis by (simp add: sample_name_def str_replace_def)
qed

section \<open>The substitution passes: lemmas and claims\<close>

lemma df_replace_map: "df_replace to_replace val df = map (replace_row to_replace val) df"
  by (simp add: df_replace_def replace_row_def)

lemma fold_map_rows:
  "(\<And>x d. x \<in> set xs \<Longrightarrow> step x d = map (g x) d) \<Longrightarrow> fold step xs df = map (fold g xs) df"
proof (induction xs arbitrary: df)
  case Nil
  show ?case by simp
next
  case (Cons x xs)
  have "fold step (x # xs) df = fold step xs (step x df)" by simp
  also have "\<dots> = map (fold g xs) (step x df)"
    using Cons.prems by (intro Cons.IH) simp
  also have "step x df = map (g x) df"
    using Cons.prems by simp
  finally show ?case by (simp add: comp_def)
qed

lemma make_pass_map:
  "make_pass make_df df
     = map (fold (\<lambda>(mk, alias). replace_row (split_comma alias) mk) make_df) df"
  unfolding make_pass_def
  by (rule fold_map_rows) (auto simp: df_replace_map)

lemma viol_pass_with_map:
  "viol_pass_with al df = map (fold (\<lambda>(key, val). viol_row key val) al) df"
  unfolding viol_pass_with_def
  by (rule fold_map_rows) (auto simp: viol_step_def viol_row_def)

lemma viol_rows_code:
  "violation_code (fold (\<lambda>(key, val). viol_row key val) al r) = violation_code r"
  by (induction al arbitrary: r) (auto simp: viol_row_def)

lemma viol_rows_make:
  "make_col (fold (\<lambda>(key, val). viol_row key val) al r) = make_col r"
  by (induction al arbitrary: r) (auto simp: viol_row_def)

lemma viol_rows_miss:
  "violation_code r \<notin> Text ` fst ` set al \<Longrightarrow> fold (\<lambda>(key, val). viol_row key val) al r = r"
  by (induction al arbitrary: r) (auto simp: viol_row_def)

lemma viol_rows_hit:
  "violation_code r = Text c \<Longrightarrow> c \<in> fst ` set al \<Longrightarrow>
   \<exists>v. (c, v) \<in> set al \<and> violation_description (fold (\<lambda>(key, val). viol_row key val) al r) = Text v"
proof (induction al arbitrary: r rule: rev_induct)
  case Nil
  then show ?case by simp
next
  case (snoc kv al)
  obtain k v where kv: "kv = (k, v)" by (cases kv)
  define r' where "r' = fold (\<lambda>(key, val). viol_row key val) al r"
  have code: "violation_code r' = Text c"
    using snoc.prems(1) by (simp add: r'_def viol_rows_code)
  have step: "fold (\<lambda>(key, val). viol_row key val) (al @ [kv]) r = viol_row k v r'"
    by (simp add: kv r'_def)
  show ?case
  proof (cases "k = c")
    case True
    with code have "violation_description (viol_row k v r') = Text v"
      by (simp add: viol_row_def)
    with True kv show ?thesis
      unfolding step by auto
  next
    case False
    with snoc.prems(2) kv have "c \<in> fst ` set al" by auto
    from snoc.IH [OF snoc.prems(1) this] obtain w
      where w: "(c, w) \<in> set al" "violation_description r' = Text w"
      unfolding r'_def by blast
    from False code have "viol_row k v r' = r'"
      by (simp add: viol_row_def)
    with w show ?thesis
      unfolding step by auto
  qed
qed

lemma viol_aliases_nonempty: "\<forall>(k, v)\<in>set viol_aliases. v \<noteq> []"
  by (simp add: viol_aliases_def)

text \<open>The cells of a row after the make loop: each is the cell before it, taken through
  the replacements of the make table in order.\<close>

lemma make_rows_cells:
  "make_col (fold (\<lambda>(mk, alias). replace_row (split_comma alias) mk) make_df r)
     = fold (\<lambda>(mk, alias). replace_cell (split_comma alias) mk) make_df (make_col r)
   \<and> violation_code (fold (\<lambda>(mk, alias). replace_row (split_comma alias) mk) make_df r)
     = fold (\<lambda>(mk, alias). replace_cell (split_comma alias) mk) make_df (violation_code r)
   \<and> violation_description (fold (\<lambda>(mk, alias). replace_row (split_comma alias) mk) make_df r)
     = fold (\<lambda>(mk, alias). replace_cell (split_comma alias) mk) make_df (violation_description r)"
  by (induction make_df arbitrary: r) (auto simp: replace_row_def)


lemma replace_cells_no_alias:
  "\<forall>(mk, alias)\<in>set make_df. v \<notin> set (split_comma alias) \<Longrightarrow>
   fold (\<lambda>(mk, alias). replace_cell (split_comma alias) mk) make_df (Text v) = Text v"
  by (induction make_df) (auto simp: replace_cell_def)

lemma replace_cell_whole:
  "replace_cell al mk c = (if \<exists>a\<in>set al. c = Text a then Text mk else c)"
  by (auto simp: replace_cell_def split: cell.splits)

text \<open>
  Claim C7: the make-alias pass and the violation-code pass each rewrite the table row
  by row: the result is the image of the table under one function on rows, so no row
  is added, removed or moved. The violation-code pass changes neither the make nor
  the code of a row.
\<close>

theorem C7_passes_row_wise:
  "(\<exists>g. \<forall>df. make_pass make_df df = map g df)
   \<and> (\<exists>h. \<forall>df. viol_pass df = map h df)
   \<and> length (make_pass make_df df) = length df
   \<and> length (viol_pass df) = length df
   \<and> map make_col (viol_pass df) = map make_col df
   \<and> map violation_code (viol_pass df) = map violation_code df"
proof -
  have a: "\<exists>g. \<forall>df. make_pass make_df df = map g df"
    using make_pass_map by blast
  have b: "\<exists>h. \<forall>df. viol_pass df = map h df"
    unfolding viol_pass_def using viol_pass_with_map by blast
  have c: "length (make_pass make_df df) = length df"
    by (simp add: make_pass_map)
  have d: "length (viol_pass df) = length df"
    by (simp add: viol_pass_def viol_pass_with_map)
  have e: "map make_col (viol_pass df) = map make_col df"
    by (simp add: viol_pass_def viol_pass_with_map viol_rows_make comp_def)
  have f: "map violation_code (viol_pass df) = map violation_code df"
    by (simp add: viol_pass_def viol_pass_with_map viol_rows_code comp_def)
  from a b c d e f show ?thesis by blast
qed

text \<open>
  Claim C9, as stated: a cell is rewritten to the canonical make exactly when its whole
  value is one of that make's aliases. Over the loop of lines 192-193 this fails when
  a canonical make is itself an alias of a later make: the cell \<^verbatim>\<open>TOYT\<close> is an alias
  of \<^verbatim>\<open>TOYOTA\<close> and no alias of \<^verbatim>\<open>HONDA\<close>, and it ends as \<^verbatim>\<open>HONDA\<close>.
\<close>

theorem C9_counterexample:
  "''TOYT'' \<in> set (split_comma ''TOYT,TOYO'')
   \<and> ''TOYT'' \<notin> set (split_comma ''TOYOTA,HOND'')
   \<and> read_csv unsigned_decimal
        [\<lparr>raw_make = ''TOYT'', raw_code = ''80.69BS'', raw_description = ''X''\<rparr>]
     = [\<lparr>make_col = Text ''TOYT'', violation_code = Text ''80.69BS'', violation_description = Text ''X''\<rparr>]
   \<and> make_pass [(''TOYOTA'', ''TOYT,TOYO''), (''HONDA'', ''TOYOTA,HOND'')]
        (read_csv unsigned_decimal
          [\<lparr>raw_make = ''TOYT'', raw_code = ''80.69BS'', raw_description = ''X''\<rparr>])
     = [\<lparr>make_col = Text ''HONDA'', violation_code = Text ''80.69BS'', violation_description = Text ''X''\<rparr>]
   \<and> make_col (make_pass [(''TOYOTA'', ''TOYT,TOYO''), (''HONDA'', ''TOYOTA,HOND'')]
        (read_csv unsigned_decimal
          [\<lparr>raw_make = ''TOYT'', raw_code = ''80.69BS'', raw_description = ''X''\<rparr>]) ! 0)
     \<noteq> Text ''TOYOTA''"
  by (simp add: read_csv_def numeric_col_def read_cell_def is_na_def na_values_def
        unsigned_decimal_def is_digit_def make_pass_def df_replace_def replace_cell_def)

text \<open>
  Claim C9, amended: the make loop leaves an empty make table's input as it is and
  otherwise applies one \<^verbatim>\<open>df.replace\<close> call per make, in the order of the make table,
  each to the table as the calls before it left it. One call rewrites a cell, in any
  column, to the canonical make exactly when the whole value of the cell at that call
  is a text equal to one of that make's aliases, and leaves every other cell as it
  is. So each cell after the loop is the cell before it taken through the calls in
  order, a cell rewritten by one make can be rewritten again by a later make, and a
  cell whose text is no alias of any make, such as one that properly contains an
  alias, is never changed.
\<close>

theorem C9_whole_cell_match:
  assumes "i < length df"
  shows "make_pass [] df = df
       \<and> make_pass ((mk, alias) # rest) df = make_pass rest (df_replace (split_comma alias) mk df)
       \<and> length (df_replace al mk df) = length df
       \<and> make_col (df_replace al mk df ! i)
           = (if \<exists>a\<in>set al. make_col (df ! i) = Text a then Text mk else make_col (df ! i))
       \<and> violation_code (df_replace al mk df ! i)
           = (if \<exists>a\<in>set al. violation_code (df ! i) = Text a then Text mk
              else violation_code (df ! i))
       \<and> violation_description (df_replace al mk df ! i)
           = (if \<exists>a\<in>set al. violation_description (df ! i) = Text a then Text mk
              else violation_description (df ! i))
       \<and> length (make_pass make_df df) = length df
       \<and> make_col (make_pass make_df df ! i)
           = fold (\<lambda>(mk, alias). replace_cell (split_comma alias) mk) make_df (make_col (df ! i))
       \<and> violation_code (make_pass make_df df ! i)
           = fold (\<lambda>(mk, alias). replace_cell (split_comma alias) mk) make_df (violation_code (df ! i))
       \<and> violation_description (make_pass make_df df ! i)
           = fold (\<lambda>(mk, alias). replace_cell (split_comma alias) mk) make_df
               (violation_description (df ! i))
       \<and> (\<forall>c. replace_cell al mk c = (if \<exists>a\<in>set al. c = Text a then Text mk else c))
       \<and> (\<forall>v. make_col (df ! i) = Text v
                \<and> (\<forall>(mk, alias)\<in>set make_df. v \<notin> set (split_comma alias))
              \<longrightarrow> make_col (make_pass make_df df ! i) = Text v)"
proof -
  have one: "df_replace al mk df ! i = replace_row al mk (df ! i)"
    using assms by (simp add: df_replace_map)
  have all: "make_pass make_df df ! i
      = fold (\<lambda>(mk, alias). replace_row (split_comma alias) mk) make_df (df ! i)"
    using assms by (simp add: make_pass_map)
  have a: "make_pass [] df = df"
    by (simp add: make_pass_def)
  have b: "make_pass ((mk, alias) # rest) df
      = make_pass rest (df_replace (split_comma alias) mk df)"
    by (simp add: make_pass_def)
  have c: "length (df_replace al mk df) = length df"
    by (simp add: df_replace_map)
  have d: "make_col (df_replace al mk df ! i)
           = (if \<exists>a\<in>set al. make_col (df ! i) = Text a then Text mk else make_col (df ! i))"
    unfolding one by (simp add: replace_row_def replace_cell_whole)
  have e: "violation_code (df_replace al mk df ! i)
           = (if \<exists>a\<in>set al. violation_code (df ! i) = Text a then Text mk
              else violation_code (df ! i))"
    unfolding one by (simp add: replace_row_def replace_cell_whole)
  have f: "violation_description (df_replace al mk df ! i)
           = (if \<exists>a\<in>set al. violation_description (df ! i) = Text a then Text mk
              else violation_description (df ! i))"
    unfolding one by (simp add: replace_row_def replace_cell_whole)
  have g: "length (make_pass make_df df) = length df"
    by (simp add: make_pass_map)
  have h: "make_col (make_pass make_df df ! i)
           = fold (\<lambda>(mk, alias). replace_cell (split_comma alias) mk) make_df (make_col (df ! i))"
    unfolding all by (simp add: make_rows_cells)
  have j: "violation_code (make_pass make_df df ! i)
           = fold (\<lambda>(mk, alias). replace_cell (split_comma alias) mk) make_df (violation_code (df ! i))"
    unfolding all by (simp add: make_rows_cells)
  have k: "violation_description (make_pass make_df df ! i)
           = fold (\<lambda>(mk, alias). replace_cell (split_comma alias) mk) make_df
               (violation_description (df ! i))"
    unfolding all by (simp add: make_rows_cells)
  have l: "\<forall>c. replace_cell al mk c = (if \<exists>a\<in>set al. c = Text a then Text mk else c)"
    using replace_cell_whole by blast
  have m: "\<forall>v. make_col (df ! i) = Text v
                \<and> (\<forall>(mk, alias)\<in>set make_df. v \<notin> set (split_comma alias))
              \<longrightarrow> make_col (make_pass make_df df ! i) = Text v"
    unfolding h by (simp add: replace_cells_no_alias)
  from a b c d e f g h j k l m show ?thesis by blast
qed

theorem C9_whole_cell_match_witness:
  "(0::nat) < length [\<lparr>make_col = Text ''TOYT'', violation_code = Text ''80.69BS'', violation_description = NaN\<rparr>,
                       \<lparr>make_col = Text ''TOYTA'', violation_code = Text ''TOYO'', violation_description = NaN\<rparr>]
   \<and> ''TOYT'' \<in> set (split_comma ''TOYT,TOYO'') \<and> strict_sublist ''TOYT'' ''TOYTA''
   \<and> ''TOYTA'' \<notin> set (split_comma ''TOYT,TOYO'') \<and> ''TOYTA'' \<notin> set (split_comma ''TOYOTA,HOND'')
   \<and> make_pass [(''TOYOTA'', ''TOYT,TOYO''), (''HONDA'', ''TOYOTA,HOND'')]
        [\<lparr>make_col = Text ''TOYT'', violation_code = Text ''80.69BS'', violation_description = NaN\<rparr>,
         \<lparr>make_col = Text ''TOYTA'', violation_code = Text ''TOYO'', violation_description = NaN\<rparr>]
     = [\<lparr>make_col = Text ''HONDA'', violation_code = Text ''80.69BS'', violation_description = NaN\<rparr>,
        \<lparr>make_col = Text ''TOYTA'', violation_code = Text ''HONDA'', violation_description = NaN\<rparr>]"
  using C9_whole_cell_match [of 0 "[\<lparr>make_col = Text ''TOYT'', violation_code = Text ''80.69BS'', violation_description = NaN\<rparr>,
                   \<lparr>make_col = Text ''TOYTA'', violation_code = Text ''TOYO'', violation_description = NaN\<rparr>]"
               "''TOYOTA''" "''TOYT,TOYO''" "[(''HONDA'', ''TOYOTA,HOND'')]" "split_comma ''TOYT,TOYO''"
               "[(''TOYOTA'', ''TOYT,TOYO''), (''HONDA'', ''TOYOTA,HOND'')]"]
  by (simp add: make_pass_def df_replace_def replace_cell_def strict_sublist_def sublist_code)

section \<open>The reconciler: lemmas and claims\<close>

lemmas read_eval =
  read_csv_def numeric_col_def read_cell_def is_na_def na_values_def
  unsigned_decimal_def is_digit_def

lemmas reconcile_eval =
  reconcile_def drop_missing_def swap_pass_def same_codes_def object_col_def
  code_swap_filter_def code_swap_def

lemma length_swap_pass: "length (swap_pass df) = length df"
  by (simp add: swap_pass_def Let_def)

lemma swap_pass_nth:
  "i < length df \<Longrightarrow>
   swap_pass df ! i =
     (if code_swap_filter (same_codes df) (df ! i) then code_swap (df ! i) else df ! i)"
  by (simp add: swap_pass_def Let_def)

lemma swap_pass_cases:
  assumes "r \<in> set (swap_pass df)"
  obtains (kept) "r \<in> set df" "\<not> code_swap_filter (same_codes df) r"
        | (swapped) r0 where "r0 \<in> set df" "code_swap_filter (same_codes df) r0" "r = code_swap r0"
  using assms by (auto simp: swap_pass_def Let_def split: if_splits)

lemma swap_pass_image:
  "r \<in> set df \<Longrightarrow>
   (if code_swap_filter (same_codes df) r then code_swap r else r) \<in> set (swap_pass df)"
  by (simp add: swap_pass_def Let_def)

lemma set_drop_missing:
  "set (drop_missing df) =
     {r \<in> set df. \<not> (violation_code r = NaN \<and> violation_description r = NaN)}"
  by (simp add: drop_missing_def)

lemma NaN_same_codes:
  "NaN \<in> same_codes df \<longleftrightarrow>
     object_col (map violation_code df) \<and> object_col (map violation_description df)
     \<and> NaN \<in> set (map violation_code df) \<and> NaN \<in> set (map violation_description df)"
  by (simp add: same_codes_def Let_def)

lemma value_same_codes:
  "c \<noteq> NaN \<Longrightarrow>
   c \<in> same_codes df \<longleftrightarrow>
     c \<in> set (map violation_code df) \<and> c \<in> set (map violation_description df)"
  by (simp add: same_codes_def Let_def)

lemma swap_pass_unchanged:
  assumes "\<And>r. r \<in> set df \<Longrightarrow> \<not> code_swap_filter (same_codes df) r"
  shows "swap_pass df = df"
proof -
  have "map (\<lambda>r. if code_swap_filter (same_codes df) r then code_swap r else r) df
      = map (\<lambda>r. r) df"
    using assms by (intro map_cong) auto
  then show ?thesis by (simp add: swap_pass_def Let_def)
qed

lemma reconcile_shorter:
  assumes "r \<in> set df"
      and "(code_swap_filter (same_codes df) r \<and> violation_description r = NaN)
           \<or> (violation_code r = NaN \<and> violation_description r = NaN)"
  shows "length (reconcile df) < length df"
proof -
  let ?r' = "if code_swap_filter (same_codes df) r then code_swap r else r"
  have "?r' \<in> set (swap_pass df)"
    using assms(1) by (rule swap_pass_image)
  moreover have "violation_code ?r' = NaN \<and> violation_description ?r' = NaN"
    using assms(2) by (auto simp: code_swap_def)
  ultimately have "length (drop_missing (swap_pass df)) < length (swap_pass df)"
    unfolding drop_missing_def by (intro length_filter_less) auto
  then show ?thesis by (simp add: reconcile_def length_swap_pass)
qed






text \<open>Three small files, as the reader types them with the unsigned decimal numerals.
  In each, a code that is not the text of a number makes the code column a text
  column.\<close>

lemma read_sentinel_X:
  "read_csv unsigned_decimal
     [\<lparr>raw_make = ''HOND'', raw_code = ''000'', raw_description = ''X''\<rparr>,
      \<lparr>raw_make = ''FORD'', raw_code = ''80.69BS'', raw_description = ''NO PARKING''\<rparr>]
   = [\<lparr>make_col = Text ''HOND'', violation_code = Text ''000'', violation_description = Text ''X''\<rparr>,
      \<lparr>make_col = Text ''FORD'', violation_code = Text ''80.69BS'',
         violation_description = Text ''NO PARKING''\<rparr>]"
  by (simp add: read_eval)

lemma read_sentinel_twice:
  "read_csv unsigned_decimal
     [\<lparr>raw_make = ''HOND'', raw_code = ''000'', raw_description = ''000''\<rparr>,
      \<lparr>raw_make = ''FORD'', raw_code = ''80.69BS'', raw_description = ''NO PARKING''\<rparr>]
   = [\<lparr>make_col = Text ''HOND'', violation_code = Text ''000'', violation_description = Text ''000''\<rparr>,
      \<lparr>make_col = Text ''FORD'', violation_code = Text ''80.69BS'',
         violation_description = Text ''NO PARKING''\<rparr>]"
  by (simp add: read_eval)

lemma read_sentinel_missing:
  "read_csv unsigned_decimal
     [\<lparr>raw_make = ''HOND'', raw_code = ''000'', raw_description = ''X''\<rparr>,
      \<lparr>raw_make = ''FORD'', raw_code = ''80.69BS'', raw_description = ''NO PARKING''\<rparr>,
      \<lparr>raw_make = '''', raw_code = ''000'', raw_description = ''''\<rparr>]
   = [\<lparr>make_col = Text ''HOND'', violation_code = Text ''000'', violation_description = Text ''X''\<rparr>,
      \<lparr>make_col = Text ''FORD'', violation_code = Text ''80.69BS'',
         violation_description = Text ''NO PARKING''\<rparr>,
      \<lparr>make_col = NaN, violation_code = Text ''000'', violation_description = NaN\<rparr>]"
  by (simp add: read_eval)

text \<open>
  Claim C1, as stated: a swap-eligible row has its old code moved into the description
  and its code emptied, so that the row with code \<^verbatim>\<open>000\<close> and description \<^verbatim>\<open>X\<close> ends
  with an empty code and description \<^verbatim>\<open>000\<close>. The code does the opposite
  (\<^verbatim>\<open>code_swap\<close>, lines 227-230): in a file whose code column is read as text, that
  row is swap-eligible and ends with code \<^verbatim>\<open>X\<close> and a missing description.
\<close>

theorem C1_counterexample:
  "code_swap_filter
      (same_codes (read_csv unsigned_decimal
         [\<lparr>raw_make = ''HOND'', raw_code = ''000'', raw_description = ''X''\<rparr>,
          \<lparr>raw_make = ''FORD'', raw_code = ''80.69BS'', raw_description = ''NO PARKING''\<rparr>]))
      (read_csv unsigned_decimal
         [\<lparr>raw_make = ''HOND'', raw_code = ''000'', raw_description = ''X''\<rparr>,
          \<lparr>raw_make = ''FORD'', raw_code = ''80.69BS'', raw_description = ''NO PARKING''\<rparr>] ! 0)
   \<and> reconcile (read_csv unsigned_decimal
         [\<lparr>raw_make = ''HOND'', raw_code = ''000'', raw_description = ''X''\<rparr>,
          \<lparr>raw_make = ''FORD'', raw_code = ''80.69BS'', raw_description = ''NO PARKING''\<rparr>])
     = [\<lparr>make_col = Text ''HOND'', violation_code = Text ''X'', violation_description = NaN\<rparr>,
        \<lparr>make_col = Text ''FORD'', violation_code = Text ''80.69BS'',
           violation_description = Text ''NO PARKING''\<rparr>]
   \<and> violation_code (reconcile (read_csv unsigned_decimal
         [\<lparr>raw_make = ''HOND'', raw_code = ''000'', raw_description = ''X''\<rparr>,
          \<lparr>raw_make = ''FORD'', raw_code = ''80.69BS'', raw_description = ''NO PARKING''\<rparr>]) ! 0)
     \<noteq> NaN
   \<and> violation_description (reconcile (read_csv unsigned_decimal
         [\<lparr>raw_make = ''HOND'', raw_code = ''000'', raw_description = ''X''\<rparr>,
          \<lparr>raw_make = ''FORD'', raw_code = ''80.69BS'', raw_description = ''NO PARKING''\<rparr>]) ! 0)
     \<noteq> Text ''000''"
  unfolding read_sentinel_X by (simp add: reconcile_eval)

text \<open>
  Claim C1, amended: for every swap-eligible row (its description is in
  \<open>same_codes\<close>, or its code is the text \<^verbatim>\<open>000\<close>) the swap pass puts the old
  description into the code and sets the description to missing; the make is
  untouched and no row is added or removed.
\<close>

theorem C1_swap_moves_description:
  assumes "i < length df" and "code_swap_filter (same_codes df) (df ! i)"
  shows "length (swap_pass df) = length df
       \<and> violation_code (swap_pass df ! i) = violation_description (df ! i)
       \<and> violation_description (swap_pass df ! i) = NaN
       \<and> make_col (swap_pass df ! i) = make_col (df ! i)"
  using assms by (simp add: length_swap_pass swap_pass_nth code_swap_def)

theorem C1_swap_moves_description_witness:
  "(0::nat) < length (read_csv unsigned_decimal
         [\<lparr>raw_make = ''HOND'', raw_code = ''000'', raw_description = ''X''\<rparr>,
          \<lparr>raw_make = ''FORD'', raw_code = ''80.69BS'', raw_description = ''NO PARKING''\<rparr>])
   \<and> code_swap_filter
      (same_codes (read_csv unsigned_decimal
         [\<lparr>raw_make = ''HOND'', raw_code = ''000'', raw_description = ''X''\<rparr>,
          \<lparr>raw_make = ''FORD'', raw_code = ''80.69BS'', raw_description = ''NO PARKING''\<rparr>]))
      (read_csv unsigned_decimal
         [\<lparr>raw_make = ''HOND'', raw_code = ''000'', raw_description = ''X''\<rparr>,
          \<lparr>raw_make = ''FORD'', raw_code = ''80.69BS'', raw_description = ''NO PARKING''\<rparr>] ! 0)
   \<and> violation_code (swap_pass (read_csv unsigned_decimal
         [\<lparr>raw_make = ''HOND'', raw_code = ''000'', raw_description = ''X''\<rparr>,
          \<lparr>raw_make = ''FORD'', raw_code = ''80.69BS'', raw_description = ''NO PARKING''\<rparr>]) ! 0)
     = Text ''X''
   \<and> violation_description (swap_pass (read_csv unsigned_decimal
         [\<lparr>raw_make = ''HOND'', raw_code = ''000'', raw_description = ''X''\<rparr>,
          \<lparr>raw_make = ''FORD'', raw_code = ''80.69BS'', raw_description = ''NO PARKING''\<rparr>]) ! 0)
     = NaN"
proof -
  let ?df = "read_csv unsigned_decimal
         [\<lparr>raw_make = ''HOND'', raw_code = ''000'', raw_description = ''X''\<rparr>,
          \<lparr>raw_make = ''FORD'', raw_code = ''80.69BS'', raw_description = ''NO PARKING''\<rparr>]"
  have l: "0 < length ?df"
    by (simp add: read_sentinel_X)
  have h: "code_swap_filter (same_codes ?df) (?df ! 0)"
    by (simp add: read_sentinel_X code_swap_filter_def)
  have d: "violation_description (?df ! 0) = Text ''X''"
    by (simp add: read_sentinel_X)
  from l h d C1_swap_moves_description [OF l h] show ?thesis
    by simp
qed

text \<open>
  Claim C2, as stated: after the swap and drop passes no record has code \<^verbatim>\<open>000\<close>, also
  for a row whose code and description both start as \<^verbatim>\<open>000\<close>. In a file whose two
  columns are read as text, the swap copies the description \<^verbatim>\<open>000\<close> of that row into
  its code, and the row is kept.
\<close>

theorem C2_counterexample:
  "reconcile (read_csv unsigned_decimal
     [\<lparr>raw_make = ''HOND'', raw_code = ''000'', raw_description = ''000''\<rparr>,
      \<lparr>raw_make = ''FORD'', raw_code = ''80.69BS'', raw_description = ''NO PARKING''\<rparr>])
     = [\<lparr>make_col = Text ''HOND'', violation_code = Text ''000'', violation_description = NaN\<rparr>,
        \<lparr>make_col = Text ''FORD'', violation_code = Text ''80.69BS'',
           violation_description = Text ''NO PARKING''\<rparr>]
   \<and> violation_code (reconcile (read_csv unsigned_decimal
     [\<lparr>raw_make = ''HOND'', raw_code = ''000'', raw_description = ''000''\<rparr>,
      \<lparr>raw_make = ''FORD'', raw_code = ''80.69BS'', raw_description = ''NO PARKING''\<rparr>]) ! 0)
     = Text ''000''"
  unfolding read_sentinel_twice by (simp add: reconcile_eval)

text \<open>
  Claim C2, amended: after the swap and drop passes no record has both its code and
  its description missing; and some record has the text \<^verbatim>\<open>000\<close> as its code after
  them exactly when, before them, the text \<^verbatim>\<open>000\<close> is the code of some row and the
  description of some row. So no record has code \<^verbatim>\<open>000\<close> afterwards unless \<^verbatim>\<open>000\<close>
  occurred in both columns.
\<close>

theorem C2_no_missing_pair_and_sentinel:
  "(\<forall>r\<in>set (reconcile df). \<not> (violation_code r = NaN \<and> violation_description r = NaN))
   \<and> ((\<exists>r\<in>set (reconcile df). violation_code r = Text ''000'')
        = (Text ''000'' \<in> set (map violation_code df)
           \<and> Text ''000'' \<in> set (map violation_description df)))"
proof -
  have pairs: "\<forall>r\<in>set (reconcile df). \<not> (violation_code r = NaN \<and> violation_description r = NaN)"
    by (simp add: reconcile_def set_drop_missing)
  have fwd: "Text ''000'' \<in> set (map violation_code df)
           \<and> Text ''000'' \<in> set (map violation_description df)"
    if "\<exists>r\<in>set (reconcile df). violation_code r = Text ''000''"
  proof -
    from that obtain r where r: "r \<in> set (reconcile df)" "violation_code r = Text ''000''"
      by blast
    then have "r \<in> set (swap_pass df)"
      by (simp add: reconcile_def set_drop_missing)
    then show ?thesis
    proof (cases rule: swap_pass_cases)
      case kept
      with r(2) show ?thesis by (simp add: code_swap_filter_def)
    next
      case (swapped r0)
      with r(2) have desc: "violation_description r0 = Text ''000''"
        by (simp add: code_swap_def)
      with swapped(1) have in_desc: "Text ''000'' \<in> set (map violation_description df)"
        by (metis image_eqI list.set_map)
      from swapped(2) desc
      have "Text ''000'' \<in> same_codes df \<or> violation_code r0 = Text ''000''"
        by (simp add: code_swap_filter_def)
      then have "Text ''000'' \<in> set (map violation_code df)"
      proof
        assume "Text ''000'' \<in> same_codes df"
        then show ?thesis by (simp add: value_same_codes)
      next
        assume "violation_code r0 = Text ''000''"
        with swapped(1) show ?thesis by (metis image_eqI list.set_map)
      qed
      with in_desc show ?thesis by simp
    qed
  qed
  have bwd: "\<exists>r\<in>set (reconcile df). violation_code r = Text ''000''"
    if both: "Text ''000'' \<in> set (map violation_code df)
           \<and> Text ''000'' \<in> set (map violation_description df)"
  proof -
    from both obtain r0 where r0: "r0 \<in> set df" "violation_description r0 = Text ''000''"
      by auto
    from both have "Text ''000'' \<in> same_codes df"
      by (simp add: value_same_codes)
    with r0(2) have elig: "code_swap_filter (same_codes df) r0"
      by (simp add: code_swap_filter_def)
    from swap_pass_image [OF r0(1)] elig have "code_swap r0 \<in> set (swap_pass df)"
      by simp
    moreover from r0(2) have code: "violation_code (code_swap r0) = Text ''000''"
      by (simp add: code_swap_def)
    ultimately have "code_swap r0 \<in> set (reconcile df)"
      by (simp add: reconcile_def set_drop_missing)
    with code show ?thesis by blast
  qed
  from pairs fwd bwd show ?thesis by blast
qed

theorem C2_no_missing_pair_and_sentinel_witness:
  "Text ''000'' \<in> set (map violation_code (read_csv unsigned_decimal
     [\<lparr>raw_make = ''HOND'', raw_code = ''000'', raw_description = ''X''\<rparr>,
      \<lparr>raw_make = ''FORD'', raw_code = ''80.69BS'', raw_description = ''NO PARKING''\<rparr>,
      \<lparr>raw_make = '''', raw_code = ''000'', raw_description = ''''\<rparr>]))
   \<and> Text ''000'' \<notin> set (map violation_description (read_csv unsigned_decimal
     [\<lparr>raw_make = ''HOND'', raw_code = ''000'', raw_description = ''X''\<rparr>,
      \<lparr>raw_make = ''FORD'', raw_code = ''80.69BS'', raw_description = ''NO PARKING''\<rparr>,
      \<lparr>raw_make = '''', raw_code = ''000'', raw_description = ''''\<rparr>]))
   \<and> reconcile (read_csv unsigned_decimal
     [\<lparr>raw_make = ''HOND'', raw_code = ''000'', raw_description = ''X''\<rparr>,
      \<lparr>raw_make = ''FORD'', raw_code = ''80.69BS'', raw_description = ''NO PARKING''\<rparr>,
      \<lparr>raw_make = '''', raw_code = ''000'', raw_description = ''''\<rparr>])
     = [\<lparr>make_col = Text ''HOND'', violation_code = Text ''X'', violation_description = NaN\<rparr>,
        \<lparr>make_col = Text ''FORD'', violation_code = Text ''80.69BS'',
           violation_description = Text ''NO PARKING''\<rparr>]
   \<and> list_all (\<lambda>r. \<not> (violation_code r = NaN \<and> violation_description r = NaN)
                    \<and> violation_code r \<noteq> Text ''000'')
        (reconcile (read_csv unsigned_decimal
     [\<lparr>raw_make = ''HOND'', raw_code = ''000'', raw_description = ''X''\<rparr>,
      \<lparr>raw_make = ''FORD'', raw_code = ''80.69BS'', raw_description = ''NO PARKING''\<rparr>,
      \<lparr>raw_make = '''', raw_code = ''000'', raw_description = ''''\<rparr>]))"
proof -
  let ?df = "read_csv unsigned_decimal
     [\<lparr>raw_make = ''HOND'', raw_code = ''000'', raw_description = ''X''\<rparr>,
      \<lparr>raw_make = ''FORD'', raw_code = ''80.69BS'', raw_description = ''NO PARKING''\<rparr>,
      \<lparr>raw_make = '''', raw_code = ''000'', raw_description = ''''\<rparr>]"
  have c: "Text ''000'' \<in> set (map violation_code ?df)"
    by (simp add: read_sentinel_missing)
  have d: "Text ''000'' \<notin> set (map violation_description ?df)"
    by (simp add: read_sentinel_missing)
  have e: "reconcile ?df
     = [\<lparr>make_col = Text ''HOND'', violation_code = Text ''X'', violation_description = NaN\<rparr>,
        \<lparr>make_col = Text ''FORD'', violation_code = Text ''80.69BS'',
           violation_description = Text ''NO PARKING''\<rparr>]"
    unfolding read_sentinel_missing by (simp add: reconcile_eval)
  from C2_no_missing_pair_and_sentinel [of ?df] d
  have "list_all (\<lambda>r. \<not> (violation_code r = NaN \<and> violation_description r = NaN)
                    \<and> violation_code r \<noteq> Text ''000'') (reconcile ?df)"
    unfolding list_all_iff by blast
  with c d e show ?thesis by blast
qed

lemma read_numeric_codes:
  "read_csv unsigned_decimal
     [\<lparr>raw_make = ''HOND'', raw_code = ''8056'', raw_description = ''X''\<rparr>,
      \<lparr>raw_make = ''FORD'', raw_code = '''', raw_description = ''''\<rparr>]
   = [\<lparr>make_col = Text ''HOND'', violation_code = Number 8056, violation_description = Text ''X''\<rparr>,
      \<lparr>make_col = Text ''FORD'', violation_code = NaN, violation_description = NaN\<rparr>]"
  by (simp add: read_eval)

lemma read_crossed_missing:
  "read_csv unsigned_decimal
     [\<lparr>raw_make = ''HOND'', raw_code = '''', raw_description = ''X''\<rparr>,
      \<lparr>raw_make = ''FORD'', raw_code = ''80.69BS'', raw_description = ''''\<rparr>]
   = [\<lparr>make_col = Text ''HOND'', violation_code = NaN, violation_description = Text ''X''\<rparr>,
      \<lparr>make_col = Text ''FORD'', violation_code = Text ''80.69BS'', violation_description = NaN\<rparr>]"
  by (simp add: read_eval)

lemma read_clean_input:
  "read_csv unsigned_decimal
     [\<lparr>raw_make = ''HOND'', raw_code = ''80.69BS'', raw_description = ''NO PARKING''\<rparr>,
      \<lparr>raw_make = ''FORD'', raw_code = '''', raw_description = ''RED ZONE''\<rparr>]
   = [\<lparr>make_col = Text ''HOND'', violation_code = Text ''80.69BS'',
         violation_description = Text ''NO PARKING''\<rparr>,
      \<lparr>make_col = Text ''FORD'', violation_code = NaN, violation_description = Text ''RED ZONE''\<rparr>]"
  by (simp add: read_eval)


text \<open>
  Claim C5, as stated: a table with no code \<^verbatim>\<open>000\<close> and with nothing shared between
  its code values and its description values is left unchanged by the reconciler. In
  the first file below the code column is numeric, the intersection that the program
  computes is empty, and the row with both fields missing is deleted. In the second
  no row has both fields missing and no text is shared, but each column has a missing
  cell: the program's intersection holds the missing value, the row with the missing
  description is swapped and then deleted.
\<close>

theorem C5_counterexample:
  "list_all (\<lambda>r. violation_code r \<noteq> Text ''000'')
      (read_csv unsigned_decimal
        [\<lparr>raw_make = ''HOND'', raw_code = ''8056'', raw_description = ''X''\<rparr>,
         \<lparr>raw_make = ''FORD'', raw_code = '''', raw_description = ''''\<rparr>])
   \<and> same_codes (read_csv unsigned_decimal
        [\<lparr>raw_make = ''HOND'', raw_code = ''8056'', raw_description = ''X''\<rparr>,
         \<lparr>raw_make = ''FORD'', raw_code = '''', raw_description = ''''\<rparr>]) = {}
   \<and> reconcile (read_csv unsigned_decimal
        [\<lparr>raw_make = ''HOND'', raw_code = ''8056'', raw_description = ''X''\<rparr>,
         \<lparr>raw_make = ''FORD'', raw_code = '''', raw_description = ''''\<rparr>])
     = [\<lparr>make_col = Text ''HOND'', violation_code = Number 8056, violation_description = Text ''X''\<rparr>]
   \<and> reconcile (read_csv unsigned_decimal
        [\<lparr>raw_make = ''HOND'', raw_code = ''8056'', raw_description = ''X''\<rparr>,
         \<lparr>raw_make = ''FORD'', raw_code = '''', raw_description = ''''\<rparr>])
     \<noteq> read_csv unsigned_decimal
        [\<lparr>raw_make = ''HOND'', raw_code = ''8056'', raw_description = ''X''\<rparr>,
         \<lparr>raw_make = ''FORD'', raw_code = '''', raw_description = ''''\<rparr>]
   \<and> list_all (\<lambda>r. violation_code r \<noteq> Text ''000'')
      (read_csv unsigned_decimal
        [\<lparr>raw_make = ''HOND'', raw_code = '''', raw_description = ''X''\<rparr>,
         \<lparr>raw_make = ''FORD'', raw_code = ''80.69BS'', raw_description = ''''\<rparr>])
   \<and> (set (map violation_code (read_csv unsigned_decimal
        [\<lparr>raw_make = ''HOND'', raw_code = '''', raw_description = ''X''\<rparr>,
         \<lparr>raw_make = ''FORD'', raw_code = ''80.69BS'', raw_description = ''''\<rparr>]))
      \<inter> set (map violation_description (read_csv unsigned_decimal
        [\<lparr>raw_make = ''HOND'', raw_code = '''', raw_description = ''X''\<rparr>,
         \<lparr>raw_make = ''FORD'', raw_code = ''80.69BS'', raw_description = ''''\<rparr>]))) - {NaN} = {}
   \<and> reconcile (read_csv unsigned_decimal
        [\<lparr>raw_make = ''HOND'', raw_code = '''', raw_description = ''X''\<rparr>,
         \<lparr>raw_make = ''FORD'', raw_code = ''80.69BS'', raw_description = ''''\<rparr>])
     = [\<lparr>make_col = Text ''HOND'', violation_code = NaN, violation_description = Text ''X''\<rparr>]
   \<and> reconcile (read_csv unsigned_decimal
        [\<lparr>raw_make = ''HOND'', raw_code = '''', raw_description = ''X''\<rparr>,
         \<lparr>raw_make = ''FORD'', raw_code = ''80.69BS'', raw_description = ''''\<rparr>])
     \<noteq> read_csv unsigned_decimal
        [\<lparr>raw_make = ''HOND'', raw_code = '''', raw_description = ''X''\<rparr>,
         \<lparr>raw_make = ''FORD'', raw_code = ''80.69BS'', raw_description = ''''\<rparr>]"
  unfolding read_numeric_codes read_crossed_missing by (simp add: reconcile_eval)

text \<open>
  Claim C5, amended: for every table with no code equal to the text \<^verbatim>\<open>000\<close> and with
  no text or number that is both in the code column and in the description column,
  the reconciler (computation of \<open>same_codes\<close>, swap pass, drop pass) returns the
  table unchanged exactly when no row has both fields missing and the missing value
  is not in \<open>same_codes\<close>; the missing value is in \<open>same_codes\<close> exactly when the
  code column and the description column are both text columns and each has a
  missing cell.
\<close>

theorem C5_reconcile_clean_input:
  assumes "\<forall>r\<in>set df. violation_code r \<noteq> Text ''000''"
      and "(set (map violation_code df) \<inter> set (map violation_description df)) - {NaN} = {}"
  shows "(reconcile df = df)
           = (NaN \<notin> same_codes df
              \<and> (\<forall>r\<in>set df. \<not> (violation_code r = NaN \<and> violation_description r = NaN)))
       \<and> (NaN \<in> same_codes df)
           = (object_col (map violation_code df) \<and> object_col (map violation_description df)
              \<and> NaN \<in> set (map violation_code df) \<and> NaN \<in> set (map violation_description df))"
proof -
  have no_value: "c \<notin> same_codes df" if "c \<noteq> NaN" for c
    using that assms(2) by (auto simp: value_same_codes)
  have fwd: "NaN \<notin> same_codes df
       \<and> (\<forall>r\<in>set df. \<not> (violation_code r = NaN \<and> violation_description r = NaN))"
    if same: "reconcile df = df"
  proof (intro conjI ballI notI)
    assume "NaN \<in> same_codes df"
    then have "NaN \<in> set (map violation_description df)"
      by (simp add: NaN_same_codes)
    then obtain r where r: "r \<in> set df" "violation_description r = NaN"
      by auto
    with \<open>NaN \<in> same_codes df\<close> have "code_swap_filter (same_codes df) r"
      by (simp add: code_swap_filter_def)
    with r have "length (reconcile df) < length df"
      by (intro reconcile_shorter [of r]) auto
    with same show False by simp
  next
    fix r assume "r \<in> set df" "violation_code r = NaN \<and> violation_description r = NaN"
    then have "length (reconcile df) < length df"
      by (intro reconcile_shorter [of r]) auto
    with same show False by simp
  qed
  have bwd: "reconcile df = df"
    if ok: "NaN \<notin> same_codes df
       \<and> (\<forall>r\<in>set df. \<not> (violation_code r = NaN \<and> violation_description r = NaN))"
  proof -
    have "same_codes df = {}"
    proof (rule ccontr)
      assume "same_codes df \<noteq> {}"
      then obtain c where c: "c \<in> same_codes df" by blast
      with ok have "c \<noteq> NaN" by blast
      with c no_value show False by blast
    qed
    with assms(1) have "\<not> code_swap_filter (same_codes df) r" if "r \<in> set df" for r
      using that by (simp add: code_swap_filter_def)
    then have "swap_pass df = df"
      by (rule swap_pass_unchanged)
    moreover from ok have "drop_missing df = df"
      by (simp add: drop_missing_def)
    ultimately show ?thesis by (simp add: reconcile_def)
  qed
  from fwd bwd NaN_same_codes [of df] show ?thesis by blast
qed

theorem C5_reconcile_clean_input_witness:
  "list_all (\<lambda>r. violation_code r \<noteq> Text ''000'')
      (read_csv unsigned_decimal
        [\<lparr>raw_make = ''HOND'', raw_code = ''80.69BS'', raw_description = ''NO PARKING''\<rparr>,
         \<lparr>raw_make = ''FORD'', raw_code = '''', raw_description = ''RED ZONE''\<rparr>])
   \<and> (set (map violation_code (read_csv unsigned_decimal
        [\<lparr>raw_make = ''HOND'', raw_code = ''80.69BS'', raw_description = ''NO PARKING''\<rparr>,
         \<lparr>raw_make = ''FORD'', raw_code = '''', raw_description = ''RED ZONE''\<rparr>]))
      \<inter> set (map violation_description (read_csv unsigned_decimal
        [\<lparr>raw_make = ''HOND'', raw_code = ''80.69BS'', raw_description = ''NO PARKING''\<rparr>,
         \<lparr>raw_make = ''FORD'', raw_code = '''', raw_description = ''RED ZONE''\<rparr>]))) - {NaN} = {}
   \<and> NaN \<notin> same_codes (read_csv unsigned_decimal
        [\<lparr>raw_make = ''HOND'', raw_code = ''80.69BS'', raw_description = ''NO PARKING''\<rparr>,
         \<lparr>raw_make = ''FORD'', raw_code = '''', raw_description = ''RED ZONE''\<rparr>])
   \<and> reconcile (read_csv unsigned_decimal
        [\<lparr>raw_make = ''HOND'', raw_code = ''80.69BS'', raw_description = ''NO PARKING''\<rparr>,
         \<lparr>raw_make = ''FORD'', raw_code = '''', raw_description = ''RED ZONE''\<rparr>])
     = read_csv unsigned_decimal
        [\<lparr>raw_make = ''HOND'', raw_code = ''80.69BS'', raw_description = ''NO PARKING''\<rparr>,
         \<lparr>raw_make = ''FORD'', raw_code = '''', raw_description = ''RED ZONE''\<rparr>]"
proof -
  let ?df = "read_csv unsigned_decimal
        [\<lparr>raw_make = ''HOND'', raw_code = ''80.69BS'', raw_description = ''NO PARKING''\<rparr>,
         \<lparr>raw_make = ''FORD'', raw_code = '''', raw_description = ''RED ZONE''\<rparr>]"
  have h1: "\<forall>r\<in>set ?df. violation_code r \<noteq> Text ''000''"
    by (simp add: read_clean_input)
  have h2: "(set (map violation_code ?df) \<inter> set (map violation_description ?df)) - {NaN} = {}"
    by (simp add: read_clean_input)
  have n: "NaN \<notin> same_codes ?df"
    by (simp add: read_clean_input same_codes_def object_col_def)
  have p: "\<forall>r\<in>set ?df. \<not> (violation_code r = NaN \<and> violation_description r = NaN)"
    by (simp add: read_clean_input)
  from C5_reconcile_clean_input [OF h1 h2] n p have "reconcile ?df = ?df"
    by blast
  with h1 h2 n show ?thesis
    by (simp add: list_all_iff)
qed




section \<open>The written output\<close>

lemma read_text_codes:
  "read_csv unsigned_decimal
     [\<lparr>raw_make = ''HOND'', raw_code = ''8056'', raw_description = ''''\<rparr>,
      \<lparr>raw_make = ''FORD'', raw_code = ''80.69BS'', raw_description = ''X''\<rparr>]
   = [\<lparr>make_col = Text ''HOND'', violation_code = Text ''8056'', violation_description = NaN\<rparr>,
      \<lparr>make_col = Text ''FORD'', violation_code = Text ''80.69BS'', violation_description = Text ''X''\<rparr>]"
  by (simp add: read_eval)

lemma clean_output_nth:
  assumes "i < length (reconcile (make_pass make_df (read_csv num raw)))"
  shows "length (snd (clean num make_df stem raw))
           = length (reconcile (make_pass make_df (read_csv num raw)))
       \<and> out_index (snd (clean num make_df stem raw) ! i) = i
       \<and> out_make (snd (clean num make_df stem raw) ! i)
           = make_col (reconcile (make_pass make_df (read_csv num raw)) ! i)
       \<and> (if violation_code (reconcile (make_pass make_df (read_csv num raw)) ! i)
               \<in> Text ` fst ` set viol_aliases
          then \<exists>c v. violation_code (reconcile (make_pass make_df (read_csv num raw)) ! i) = Text c
                   \<and> (c, v) \<in> set viol_aliases \<and> v \<noteq> []
                   \<and> out_description (snd (clean num make_df stem raw) ! i) = Text v
          else out_description (snd (clean num make_df stem raw) ! i)
                 = violation_description (reconcile (make_pass make_df (read_csv num raw)) ! i))"
proof -
  define d where "d = reconcile (make_pass make_df (read_csv num raw))"
  define rows where "rows = fold (\<lambda>(key, val). viol_row key val) viol_aliases"
  have out: "snd (clean num make_df stem raw)
      = map (\<lambda>(j, r). \<lparr>out_index = j, out_make = make_col r,
                       out_description = violation_description r\<rparr>) (enumerate 0 (map rows d))"
    by (simp add: clean_def clean_passes_def drop_code_reindex_def viol_pass_def
          viol_pass_with_map d_def rows_def)
  from assms have i: "i < length d" by (simp add: d_def)
  have len: "length (snd (clean num make_df stem raw)) = length d"
    by (simp add: out)
  have nth: "snd (clean num make_df stem raw) ! i
      = \<lparr>out_index = i, out_make = make_col (rows (d ! i)),
         out_description = violation_description (rows (d ! i))\<rparr>"
    using i by (simp add: out nth_enumerate_eq)
  have mk: "make_col (rows (d ! i)) = make_col (d ! i)"
    by (simp add: rows_def viol_rows_make)
  have desc: "if violation_code (d ! i) \<in> Text ` fst ` set viol_aliases
          then \<exists>c v. violation_code (d ! i) = Text c
                   \<and> (c, v) \<in> set viol_aliases \<and> v \<noteq> []
                   \<and> violation_description (rows (d ! i)) = Text v
          else violation_description (rows (d ! i)) = violation_description (d ! i)"
  proof (cases "violation_code (d ! i) \<in> Text ` fst ` set viol_aliases")
    case True
    then obtain c where c: "violation_code (d ! i) = Text c" "c \<in> fst ` set viol_aliases"
      by auto
    from viol_rows_hit [OF this] obtain v
      where v: "(c, v) \<in> set viol_aliases" "violation_description (rows (d ! i)) = Text v"
      unfolding rows_def by blast
    from v(1) viol_aliases_nonempty have "v \<noteq> []" by blast
    with True c v show ?thesis by auto
  next
    case False
    then show ?thesis by (simp add: rows_def viol_rows_miss)
  qed
  have idx: "out_index (snd (clean num make_df stem raw) ! i) = i"
    by (simp add: nth)
  have omk: "out_make (snd (clean num make_df stem raw) ! i) = make_col (d ! i)"
    by (simp add: nth mk)
  have od: "out_description (snd (clean num make_df stem raw) ! i)
      = violation_description (rows (d ! i))"
    by (simp add: nth)
  show ?thesis
    unfolding d_def [symmetric] len idx omk od using desc by blast
qed

text \<open>
  Claim C3, as stated: every row of the written output has a usable description, also
  when a swap-eligible row's code after the swap is not a key of the violation alias
  table. In a file whose code column is read as text, the row with code \<^verbatim>\<open>000\<close> and
  description \<^verbatim>\<open>X\<close> is swap-eligible, \<^verbatim>\<open>X\<close> is not a key, and the row is written
  with a missing description.
\<close>

theorem C3_counterexample:
  "''X'' \<notin> fst ` set viol_aliases
   \<and> code_swap_filter
      (same_codes (make_pass [] (read_csv unsigned_decimal
         [\<lparr>raw_make = ''HOND'', raw_code = ''000'', raw_description = ''X''\<rparr>,
          \<lparr>raw_make = ''FORD'', raw_code = ''80.69BS'', raw_description = ''NO PARKING''\<rparr>])))
      (make_pass [] (read_csv unsigned_decimal
         [\<lparr>raw_make = ''HOND'', raw_code = ''000'', raw_description = ''X''\<rparr>,
          \<lparr>raw_make = ''FORD'', raw_code = ''80.69BS'', raw_description = ''NO PARKING''\<rparr>]) ! 0)
   \<and> length (snd (clean unsigned_decimal [] ''2020_raw_01samp''
         [\<lparr>raw_make = ''HOND'', raw_code = ''000'', raw_description = ''X''\<rparr>,
          \<lparr>raw_make = ''FORD'', raw_code = ''80.69BS'', raw_description = ''NO PARKING''\<rparr>])) = 2
   \<and> out_make (snd (clean unsigned_decimal [] ''2020_raw_01samp''
         [\<lparr>raw_make = ''HOND'', raw_code = ''000'', raw_description = ''X''\<rparr>,
          \<lparr>raw_make = ''FORD'', raw_code = ''80.69BS'', raw_description = ''NO PARKING''\<rparr>]) ! 0)
     = Text ''HOND''
   \<and> out_description (snd (clean unsigned_decimal [] ''2020_raw_01samp''
         [\<lparr>raw_make = ''HOND'', raw_code = ''000'', raw_description = ''X''\<rparr>,
          \<lparr>raw_make = ''FORD'', raw_code = ''80.69BS'', raw_description = ''NO PARKING''\<rparr>]) ! 0)
     = NaN"
proof -
  let ?raw = "[\<lparr>raw_make = ''HOND'', raw_code = ''000'', raw_description = ''X''\<rparr>,
          \<lparr>raw_make = ''FORD'', raw_code = ''80.69BS'', raw_description = ''NO PARKING''\<rparr>]"
  have key: "''X'' \<notin> fst ` set viol_aliases"
    by (simp add: viol_aliases_def)
  have mp: "make_pass [] (read_csv unsigned_decimal ?raw)
     = [\<lparr>make_col = Text ''HOND'', violation_code = Text ''000'', violation_description = Text ''X''\<rparr>,
        \<lparr>make_col = Text ''FORD'', violation_code = Text ''80.69BS'',
           violation_description = Text ''NO PARKING''\<rparr>]"
    by (simp add: make_pass_def read_sentinel_X)
  have elig: "code_swap_filter (same_codes (make_pass [] (read_csv unsigned_decimal ?raw)))
      (make_pass [] (read_csv unsigned_decimal ?raw) ! 0)"
    unfolding mp by (simp add: code_swap_filter_def)
  have rc: "reconcile (make_pass [] (read_csv unsigned_decimal ?raw))
     = [\<lparr>make_col = Text ''HOND'', violation_code = Text ''X'', violation_description = NaN\<rparr>,
        \<lparr>make_col = Text ''FORD'', violation_code = Text ''80.69BS'',
           violation_description = Text ''NO PARKING''\<rparr>]"
    unfolding mp by (simp add: reconcile_eval)
  have i: "0 < length (reconcile (make_pass [] (read_csv unsigned_decimal ?raw)))"
    by (simp add: rc)
  from key have miss: "violation_code (reconcile (make_pass [] (read_csv unsigned_decimal ?raw)) ! 0)
      \<notin> Text ` fst ` set viol_aliases"
    by (auto simp: rc)
  from clean_output_nth [OF i, of "''2020_raw_01samp''"] miss
  have "length (snd (clean unsigned_decimal [] ''2020_raw_01samp'' ?raw)) = 2
     \<and> out_make (snd (clean unsigned_decimal [] ''2020_raw_01samp'' ?raw) ! 0) = Text ''HOND''
     \<and> out_description (snd (clean unsigned_decimal [] ''2020_raw_01samp'' ?raw) ! 0) = NaN"
    by (simp add: rc)
  with key elig show ?thesis by blast
qed

text \<open>
  Claim C3, amended: the written output has one row per row that survives the swap and
  drop passes, in the same order and numbered from 0. A row whose code after these
  passes is a text equal to a key of the violation alias table is written with the
  table's entry for that key, which is a non-empty text; every other row is written
  with the description it has after these passes, which is missing for a row that
  was swapped.
\<close>

theorem C3_output_description:
  assumes "i < length (reconcile (make_pass make_df (read_csv num raw)))"
  shows "length (snd (clean num make_df stem raw))
           = length (reconcile (make_pass make_df (read_csv num raw)))
       \<and> out_index (snd (clean num make_df stem raw) ! i) = i
       \<and> out_make (snd (clean num make_df stem raw) ! i)
           = make_col (reconcile (make_pass make_df (read_csv num raw)) ! i)
       \<and> (if violation_code (reconcile (make_pass make_df (read_csv num raw)) ! i)
               \<in> Text ` fst ` set viol_aliases
          then \<exists>c v. violation_code (reconcile (make_pass make_df (read_csv num raw)) ! i) = Text c
                   \<and> (c, v) \<in> set viol_aliases \<and> v \<noteq> []
                   \<and> out_description (snd (clean num make_df stem raw) ! i) = Text v
          else out_description (snd (clean num make_df stem raw) ! i)
                 = violation_description (reconcile (make_pass make_df (read_csv num raw)) ! i))"
  using assms by (rule clean_output_nth)

theorem C3_output_description_witness:
  "(0::nat) < length (reconcile (make_pass [] (read_csv unsigned_decimal
       [\<lparr>raw_make = ''HOND'', raw_code = ''8056'', raw_description = ''''\<rparr>,
        \<lparr>raw_make = ''FORD'', raw_code = ''80.69BS'', raw_description = ''X''\<rparr>])))
   \<and> violation_code (reconcile (make_pass [] (read_csv unsigned_decimal
       [\<lparr>raw_make = ''HOND'', raw_code = ''8056'', raw_description = ''''\<rparr>,
        \<lparr>raw_make = ''FORD'', raw_code = ''80.69BS'', raw_description = ''X''\<rparr>])) ! 0)
        = Text ''8056''
   \<and> violation_description (reconcile (make_pass [] (read_csv unsigned_decimal
       [\<lparr>raw_make = ''HOND'', raw_code = ''8056'', raw_description = ''''\<rparr>,
        \<lparr>raw_make = ''FORD'', raw_code = ''80.69BS'', raw_description = ''X''\<rparr>])) ! 0)
        = NaN
   \<and> (\<exists>v. v \<noteq> [] \<and> out_description (snd (clean unsigned_decimal [] ''2020_raw_01samp''
       [\<lparr>raw_make = ''HOND'', raw_code = ''8056'', raw_description = ''''\<rparr>,
        \<lparr>raw_make = ''FORD'', raw_code = ''80.69BS'', raw_description = ''X''\<rparr>]) ! 0) = Text v)"
proof -
  let ?raw = "[\<lparr>raw_make = ''HOND'', raw_code = ''8056'', raw_description = ''''\<rparr>,
        \<lparr>raw_make = ''FORD'', raw_code = ''80.69BS'', raw_description = ''X''\<rparr>]"
  have r: "reconcile (make_pass [] (read_csv unsigned_decimal ?raw))
      = [\<lparr>make_col = Text ''HOND'', violation_code = Text ''8056'', violation_description = NaN\<rparr>,
         \<lparr>make_col = Text ''FORD'', violation_code = Text ''80.69BS'', violation_description = Text ''X''\<rparr>]"
    unfolding read_text_codes by (simp add: make_pass_def reconcile_eval)
  have k: "''8056'' \<in> fst ` set viol_aliases"
    by (simp add: viol_aliases_def)
  have h: "(0::nat) < length (reconcile (make_pass [] (read_csv unsigned_decimal ?raw)))"
    by (simp add: r)
  from C3_output_description [OF h, of "''2020_raw_01samp''"] r k h show ?thesis
    by auto
qed

end
